theory Spec2Isabelle
  imports Complex_Main "HOL-Library.Multiset" "HOL-Library.Log_Nat"
begin

section \<open>JavaScript numbers\<close>

text \<open>
  Every quantity of the library has the TypeScript type \<^verbatim>\<open>number\<close>. A number is
  modelled as a finite value, one of the two infinities, or NaN. The operations \<open>+\<close>,
  \<open>-\<close>, \<open>*\<close> and \<open>/\<close> of this section are exact on finite values: they do not
  round, do not overflow, and zero has no sign. Their results on infinities, on NaN and
  for a division by zero are the ones of IEEE-754: \<open>x / 0\<close> is an infinity with the sign
  of \<open>x\<close>, \<open>0 / 0\<close> is NaN, \<open>Infinity - Infinity\<close> is NaN, NaN is absorbing. The
  operations of the machine, which round every result to binary64, are defined on top of
  them in the section on double precision.
\<close>

datatype jsnum = Fin real | PInf | NInf | NaN

instantiation jsnum :: comm_monoid_add
begin

definition zero_jsnum :: jsnum where
  "zero_jsnum = Fin 0"

fun plus_jsnum :: "jsnum \<Rightarrow> jsnum \<Rightarrow> jsnum" where
  "plus_jsnum (Fin a) (Fin b) = Fin (a + b)"
| "plus_jsnum (Fin a) PInf = PInf"
| "plus_jsnum (Fin a) NInf = NInf"
| "plus_jsnum PInf (Fin b) = PInf"
| "plus_jsnum PInf PInf = PInf"
| "plus_jsnum PInf NInf = NaN"
| "plus_jsnum NInf (Fin b) = NInf"
| "plus_jsnum NInf PInf = NaN"
| "plus_jsnum NInf NInf = NInf"
| "plus_jsnum NaN y = NaN"
| "plus_jsnum x NaN = NaN"

instance
proof
  fix a b c :: jsnum
  show "a + b + c = a + (b + c)"
    by (cases a; cases b; cases c; simp)
  show "a + b = b + a"
    by (cases a; cases b; simp)
  show "0 + a = a"
    by (cases a; simp add: zero_jsnum_def)
qed

end

instantiation jsnum :: uminus
begin

fun uminus_jsnum :: "jsnum \<Rightarrow> jsnum" where
  "uminus_jsnum (Fin a) = Fin (- a)"
| "uminus_jsnum PInf = NInf"
| "uminus_jsnum NInf = PInf"
| "uminus_jsnum NaN = NaN"

instance ..

end

instantiation jsnum :: "{minus, times, divide}"
begin

definition minus_jsnum :: "jsnum \<Rightarrow> jsnum \<Rightarrow> jsnum" where
  "minus_jsnum x y = x + (- y)"

fun times_jsnum :: "jsnum \<Rightarrow> jsnum \<Rightarrow> jsnum" where
  "times_jsnum (Fin a) (Fin b) = Fin (a * b)"
| "times_jsnum (Fin a) PInf = (if a = 0 then NaN else if 0 < a then PInf else NInf)"
| "times_jsnum (Fin a) NInf = (if a = 0 then NaN else if 0 < a then NInf else PInf)"
| "times_jsnum PInf (Fin b) = (if b = 0 then NaN else if 0 < b then PInf else NInf)"
| "times_jsnum NInf (Fin b) = (if b = 0 then NaN else if 0 < b then NInf else PInf)"
| "times_jsnum PInf PInf = PInf"
| "times_jsnum PInf NInf = NInf"
| "times_jsnum NInf PInf = NInf"
| "times_jsnum NInf NInf = PInf"
| "times_jsnum NaN y = NaN"
| "times_jsnum x NaN = NaN"

fun divide_jsnum :: "jsnum \<Rightarrow> jsnum \<Rightarrow> jsnum" where
  "divide_jsnum (Fin a) (Fin b) =
     (if b = 0 then (if a = 0 then NaN else if 0 < a then PInf else NInf)
      else Fin (a / b))"
| "divide_jsnum (Fin a) PInf = Fin 0"
| "divide_jsnum (Fin a) NInf = Fin 0"
| "divide_jsnum PInf (Fin b) = (if 0 \<le> b then PInf else NInf)"
| "divide_jsnum NInf (Fin b) = (if 0 \<le> b then NInf else PInf)"
| "divide_jsnum PInf PInf = NaN"
| "divide_jsnum PInf NInf = NaN"
| "divide_jsnum NInf PInf = NaN"
| "divide_jsnum NInf NInf = NaN"
| "divide_jsnum NaN y = NaN"
| "divide_jsnum x NaN = NaN"

instance ..

end

instantiation jsnum :: inverse
begin

definition inverse_jsnum :: "jsnum \<Rightarrow> jsnum" where
  "inverse_jsnum x = divide (Fin 1) x"

instance ..

end

text \<open>The operator \<^verbatim>\<open>===\<close> on numbers: NaN is equal to nothing, itself included.\<close>

definition strict_eq :: "jsnum \<Rightarrow> jsnum \<Rightarrow> bool" where
  "strict_eq x y = (x \<noteq> NaN \<and> y \<noteq> NaN \<and> x = y)"

text \<open>Truthiness of a number, as \<^verbatim>\<open>||\<close> tests it: 0 and NaN are falsy.\<close>

definition truthy :: "jsnum \<Rightarrow> bool" where
  "truthy x = (x \<noteq> Fin 0 \<and> x \<noteq> NaN)"

text \<open>A destructuring default \<^verbatim>\<open>{ f = 0 }\<close>: the default replaces an absent field.\<close>

definition or_default :: "jsnum option \<Rightarrow> jsnum \<Rightarrow> jsnum" where
  "or_default v d = (case v of None \<Rightarrow> d | Some x \<Rightarrow> x)"

section \<open>Double precision\<close>

text \<open>
  A \<^verbatim>\<open>number\<close> is a binary64 value, and each arithmetic operation returns the exact
  result rounded to the nearest such value, ties to the even significand. \<open>ilog2 x\<close> is
  the binary exponent of a positive \<open>x\<close>; the spacing of the doubles around \<open>x\<close> is
  \<open>2\<close> to the power \<open>quantum x\<close>, 52 binary places below the exponent and never below
  \<open>-1074\<close>, the spacing of the subnormal numbers. A result that rounds to \<open>2 ^ 1024\<close> or
  beyond in magnitude is an infinity.
\<close>

definition ilog2 :: "real \<Rightarrow> int" where
  "ilog2 x = (if 1 \<le> x then bitlen \<lfloor>x\<rfloor> - 1 else - bitlen (\<lceil>1 / x\<rceil> - 1))"

definition round_half_even :: "real \<Rightarrow> int" where
  "round_half_even x =
     (let f = \<lfloor>x\<rfloor>; d = x - of_int f
      in if d < 1 / 2 then f else if 1 / 2 < d then f + 1 else if even f then f else f + 1)"

definition quantum :: "real \<Rightarrow> int" where
  "quantum x = max (- 1074) (ilog2 \<bar>x\<bar> - 52)"

definition to_double :: "real \<Rightarrow> jsnum" where
  "to_double x =
     (if x = 0 then Fin 0
      else let q = quantum x;
               y = of_int (round_half_even (x / 2 powi q)) * 2 powi q
           in if 2 ^ 1024 \<le> \<bar>y\<bar> then (if 0 < y then PInf else NInf) else Fin y)"

definition rounded :: "jsnum \<Rightarrow> jsnum" where
  "rounded v = (case v of Fin r \<Rightarrow> to_double r | _ \<Rightarrow> v)"

definition dplus :: "jsnum \<Rightarrow> jsnum \<Rightarrow> jsnum" where
  "dplus x y = rounded (x + y)"

definition dminus :: "jsnum \<Rightarrow> jsnum \<Rightarrow> jsnum" where
  "dminus x y = rounded (x - y)"

definition dtimes :: "jsnum \<Rightarrow> jsnum \<Rightarrow> jsnum" where
  "dtimes x y = rounded (x * y)"

definition ddivide :: "jsnum \<Rightarrow> jsnum \<Rightarrow> jsnum" where
  "ddivide x y = rounded (x / y)"

section \<open>Data model\<close>

datatype NumberType = Percentage | Number

text \<open>
  The interval of a subscription is a string at run time; the type
  \<^verbatim>\<open>SubscriptionInterval\<close> names four of them, and \<^verbatim>\<open>calculateMRR\<close> has a
  \<^verbatim>\<open>default\<close> branch for every other one.
\<close>

record Subscription =
  amount :: jsnum
  interval :: string

record CustomerChurnInput =
  startCustomers :: jsnum
  churnedCustomers :: jsnum

record RevenueChurnInput =
  rc_startMRR :: jsnum
  rc_churnedMRR :: jsnum
  rc_contractionMRR :: "jsnum option"

record NRRInput =
  startMRR :: jsnum
  newMRR :: "jsnum option"
  expansionMRR :: "jsnum option"
  contractionMRR :: "jsnum option"
  churnedMRR :: jsnum

text \<open>
  The month of a cohort is a finite number: on finite numbers the comparator
  \<^verbatim>\<open>(a, b) => a.month - b.month\<close> is a consistent ordering, which is what
  \<^verbatim>\<open>Array.prototype.sort\<close> needs for its result to be determined.
\<close>

record CohortDataPoint =
  month :: real
  customers :: jsnum

section \<open>The calculations\<close>

definition MONTHS_PER_YEAR :: jsnum where
  "MONTHS_PER_YEAR = Fin 12"

definition WEEKS_PER_YEAR :: jsnum where
  "WEEKS_PER_YEAR = Fin 52"

definition DAYS_PER_YEAR :: jsnum where
  "DAYS_PER_YEAR = Fin 365"

definition calculateARPU :: "jsnum \<Rightarrow> jsnum \<Rightarrow> jsnum" where
  "calculateARPU sales users = sales / users"


definition calculateLTV :: "jsnum \<Rightarrow> jsnum \<Rightarrow> jsnum" where
  "calculateLTV arpu averageDuration = arpu * averageDuration"

text \<open>The callback of \<^verbatim>\<open>reduce\<close> in \<^verbatim>\<open>calculateMRR\<close>, with its \<^verbatim>\<open>switch\<close>.\<close>

definition mrr_step :: "jsnum \<Rightarrow> Subscription \<Rightarrow> jsnum" where
  "mrr_step tot sub =
     (if interval sub = ''month'' then tot + amount sub
      else if interval sub = ''year'' then tot + amount sub / MONTHS_PER_YEAR
      else if interval sub = ''week'' then tot + (amount sub * WEEKS_PER_YEAR) / MONTHS_PER_YEAR
      else if interval sub = ''day'' then tot + (amount sub * DAYS_PER_YEAR) / MONTHS_PER_YEAR
      else tot)"

definition calculateMRR :: "Subscription list \<Rightarrow> jsnum" where
  "calculateMRR subscriptions = foldl mrr_step (Fin 0) subscriptions"

definition calculateARR :: "Subscription list \<Rightarrow> jsnum" where
  "calculateARR subscriptions = calculateMRR subscriptions * MONTHS_PER_YEAR"

definition calculateCustomerChurnRate :: "CustomerChurnInput \<Rightarrow> jsnum" where
  "calculateCustomerChurnRate input =
     (if strict_eq (startCustomers input) (Fin 0) then Fin 0
      else (churnedCustomers input / startCustomers input) * Fin 100)"

text \<open>
  \<^verbatim>\<open>calculateRevenueChurnRate\<close> and \<^verbatim>\<open>calculateGRR\<close> are compared with each other
  below, and they round at different operations, so their operations are the ones of the
  machine. What is proved of the other functions is stated with their own operations in
  their own order, and does not depend on what an operation returns.
\<close>

definition calculateRevenueChurnRate :: "RevenueChurnInput \<Rightarrow> jsnum" where
  "calculateRevenueChurnRate input =
     (let contraction = or_default (rc_contractionMRR input) (Fin 0)
      in if strict_eq (rc_startMRR input) (Fin 0) then Fin 0
         else dtimes (ddivide (dplus (rc_churnedMRR input) contraction) (rc_startMRR input))
                (Fin 100))"

definition calculateNRR :: "NRRInput \<Rightarrow> jsnum" where
  "calculateNRR input =
     (let expansion = or_default (expansionMRR input) (Fin 0);
          contraction = or_default (contractionMRR input) (Fin 0)
      in if strict_eq (startMRR input) (Fin 0) then Fin 0
         else let endMRR = startMRR input + expansion - contraction - churnedMRR input
              in (endMRR / startMRR input) * Fin 100)"


text \<open>
  \<^verbatim>\<open>Array.prototype.sort\<close> is stable, so with a consistent comparator its result is
  the one of the stable insertion sort \<^const>\<open>sort_key\<close>. The read
  \<^verbatim>\<open>sortedCohorts[0]\<close> is behind the length test, so it is in range.
\<close>

definition calculateCohortRetention :: "CohortDataPoint list \<Rightarrow> jsnum list" where
  "calculateCohortRetention cohorts =
     (if length cohorts = 0 then []
      else let sortedCohorts = sort_key month cohorts;
               baseCustomers = customers (sortedCohorts ! 0)
           in if strict_eq baseCustomers (Fin 0) then map (\<lambda>_. Fin 0) sortedCohorts
              else map (\<lambda>cohort. (customers cohort / baseCustomers) * Fin 100) sortedCohorts)"

definition calculateHistoricalLTV :: "jsnum list \<Rightarrow> jsnum" where
  "calculateHistoricalLTV customerRevenues =
     (if length customerRevenues = 0 then Fin 0
      else let total = foldl (\<lambda>sum revenue. sum + revenue) (Fin 0) customerRevenues
           in total / Fin (real (length customerRevenues)))"

section \<open>The cohort calculation on a store\<close>

text \<open>
  \<^verbatim>\<open>calculateCohortRetention\<close> receives a reference to the caller's array, and
  \<^verbatim>\<open>sort\<close> sorts the array it is called on in place. The store holds the arrays, an
  address is an index into it. \<^verbatim>\<open>[...cohorts]\<close> allocates a new array with the
  elements of the old one, and \<^verbatim>\<open>sort\<close> overwrites the array at the address it is
  given and returns that address.
\<close>

type_synonym store = "CohortDataPoint list list"

definition array_spread :: "store \<Rightarrow> nat \<Rightarrow> nat \<times> store" where
  "array_spread h a = (length h, h @ [h ! a])"

definition array_sort :: "store \<Rightarrow> nat \<Rightarrow> nat \<times> store" where
  "array_sort h a = (a, h[a := sort_key month (h ! a)])"

definition calculateCohortRetention_store :: "store \<Rightarrow> nat \<Rightarrow> jsnum list \<times> store" where
  "calculateCohortRetention_store h cohorts =
     (if length (h ! cohorts) = 0 then ([], h)
      else let (copy, h1) = array_spread h cohorts;
               (sortedCohorts, h2) = array_sort h1 copy;
               baseCustomers = customers ((h2 ! sortedCohorts) ! 0)
           in if strict_eq baseCustomers (Fin 0)
              then (map (\<lambda>_. Fin 0) (h2 ! sortedCohorts), h2)
              else (map (\<lambda>cohort. (customers cohort / baseCustomers) * Fin 100)
                      (h2 ! sortedCohorts), h2))"

section \<open>The class \<^verbatim>\<open>LTVCalculator\<close>\<close>

text \<open>
  The class of \<^verbatim>\<open>libs/index.ts\<close> keeps four numbers, all 0 in a new instance. Its
  methods \<^verbatim>\<open>calculateMRR\<close> to \<^verbatim>\<open>calculateHistoricalLTV\<close> read no field and have
  the bodies of the functions above. \<^verbatim>\<open>calcAverageDurationByChurnRate\<close> differs from
  \<^verbatim>\<open>calculateAverageDuration\<close>: its rate is \<^verbatim>\<open>churnRate || this.churnRate\<close>.
\<close>

record LTVCalculator =
  averageDuration :: jsnum
  arpu :: jsnum
  ltv :: jsnum
  churnRate :: jsnum

definition defaultNumberType :: NumberType where
  "defaultNumberType = Percentage"

definition new_LTVCalculator :: LTVCalculator where
  "new_LTVCalculator = \<lparr>averageDuration = Fin 0, arpu = Fin 0, ltv = Fin 0, churnRate = Fin 0\<rparr>"


definition calcAverageDurationByChurnRate ::
    "LTVCalculator \<Rightarrow> jsnum option \<Rightarrow> NumberType option \<Rightarrow> LTVCalculator" where
  "calcAverageDurationByChurnRate this churnRate_arg type =
     (let ty = (case type of None \<Rightarrow> defaultNumberType | Some t \<Rightarrow> t);
          rate = (case churnRate_arg of
                    None \<Rightarrow> churnRate this
                  | Some c \<Rightarrow> if truthy c then c else churnRate this)
      in this\<lparr>averageDuration :=
                 if ty = Percentage then Fin 1 / (rate / Fin 100) else Fin 1 / rate\<rparr>)"

text \<open>
  \<^verbatim>\<open>getAverageDurationByChurnRate\<close> calculates only when its argument is truthy, and
  returns the stored duration.
\<close>

definition getAverageDurationByChurnRate ::
    "LTVCalculator \<Rightarrow> jsnum option \<Rightarrow> NumberType option \<Rightarrow> jsnum \<times> LTVCalculator" where
  "getAverageDurationByChurnRate this churnRate_arg type =
     (let this1 = (case churnRate_arg of
                     None \<Rightarrow> this
                   | Some c \<Rightarrow> if truthy c then calcAverageDurationByChurnRate this (Some c) type
                              else this)
      in (averageDuration this1, this1))"

section \<open>The specification's contribution of one subscription\<close>

text \<open>
  The monthly equivalent of one subscription in the words of the specification:
  \<open>amount\<close> for month, \<open>amount / 12\<close> for year, \<open>amount * 52 / 12\<close> for week,
  \<open>amount * 365 / 12\<close> for day, 0 for any other tag.
\<close>

definition spec_contribution :: "Subscription \<Rightarrow> jsnum" where
  "spec_contribution sub =
     (if interval sub = ''month'' then amount sub
      else if interval sub = ''year'' then amount sub / Fin 12
      else if interval sub = ''week'' then amount sub * Fin 52 / Fin 12
      else if interval sub = ''day'' then amount sub * Fin 365 / Fin 12
      else Fin 0)"

section \<open>Facts about numbers and sorting\<close>

lemma Fin_0_eq: "Fin 0 = 0"
  by (simp add: zero_jsnum_def)

lemma strict_eq_zero: "strict_eq x (Fin 0) = (x = Fin 0)"
  by (auto simp: strict_eq_def)

lemma foldl_plus_sum_list: "foldl (\<lambda>s r. s + r) a xs = a + sum_list (xs :: jsnum list)"
  by (induction xs arbitrary: a) (simp_all add: add.assoc)

lemma sum_list_Fin: "sum_list (map Fin xs) = Fin (sum_list xs)"
  by (induction xs) (simp_all add: zero_jsnum_def)

text \<open>
  A list that is sorted by month, a permutation of the input and keeps the input's order
  among the cohorts of each month is the result of the sort: these three properties
  determine it.
\<close>

lemma stable_sort_unique:
  assumes srt: "sorted (map month s)"
    and perm: "mset s = mset cohorts"
    and stable: "\<And>k. filter (\<lambda>c. month c = k) s = filter (\<lambda>c. month c = k) cohorts"
  shows "sort_key month cohorts = s"
proof (rule properties_for_sort_key)
  show "mset s = mset cohorts" by (rule perm)
  show "sorted (map month s)" by (rule srt)
  fix k
  assume "k \<in> set s"
  have flip: "(\<lambda>c. month k = month c) = (\<lambda>c. month c = month k)" by auto
  show "filter (\<lambda>c. month k = month c) s = filter (\<lambda>c. month k = month c) cohorts"
    unfolding flip by (rule stable)
qed

lemma sort_key_month_cong:
  assumes "mset ys = mset xs"
    and "\<And>k. filter (\<lambda>c. month c = k) ys = filter (\<lambda>c. month c = k) xs"
  shows "sort_key month ys = sort_key month xs"
proof (rule stable_sort_unique)
  show "sorted (map month (sort_key month xs))" by simp
  show "mset (sort_key month xs) = mset ys" using assms(1) by simp
  show "filter (\<lambda>c. month c = k) (sort_key month xs) = filter (\<lambda>c. month c = k) ys" for k
    using assms(2) [of k] by (simp add: sort_key_stable)
qed

lemma cohort_retention_cong:
  assumes "mset ys = mset xs"
    and "\<And>k. filter (\<lambda>c. month c = k) ys = filter (\<lambda>c. month c = k) xs"
  shows "calculateCohortRetention ys = calculateCohortRetention xs"
proof -
  have "sort_key month ys = sort_key month xs"
    using assms by (rule sort_key_month_cong)
  moreover have "length ys = length xs"
    using assms(1) by (rule mset_eq_length)
  ultimately show ?thesis
    by (simp add: calculateCohortRetention_def)
qed

lemma filter_key_le_one:
  "distinct (map f xs) \<Longrightarrow> length (filter (\<lambda>x. f x = k) xs) \<le> 1"
proof (induction xs)
  case Nil
  show ?case by simp
next
  case (Cons x xs)
  show ?case
  proof (cases "f x = k")
    case True
    from Cons.prems have "f x \<notin> f ` set xs" by simp
    with True have "\<forall>y \<in> set xs. f y \<noteq> k" by (metis imageI)
    then have "filter (\<lambda>y. f y = k) xs = []" by (simp add: filter_empty_conv)
    with True show ?thesis by simp
  next
    case False
    with Cons show ?thesis by simp
  qed
qed

lemma mset_eq_short_lists:
  assumes "mset us = mset vs" "length vs \<le> 1"
  shows "us = vs"
proof -
  have "length us = length vs" using assms(1) by (rule mset_eq_length)
  with assms show ?thesis
    by (cases us; cases vs) (auto split: if_splits)
qed

text \<open>With pairwise distinct months every permutation gives the same result.\<close>

lemma cohort_retention_distinct_months:
  assumes "mset ys = mset xs" "distinct (map month xs)"
  shows "calculateCohortRetention ys = calculateCohortRetention xs"
proof (rule cohort_retention_cong [OF assms(1)])
  fix k
  have "mset (filter (\<lambda>c. month c = k) ys) = mset (filter (\<lambda>c. month c = k) xs)"
    using assms(1) by simp
  then show "filter (\<lambda>c. month c = k) ys = filter (\<lambda>c. month c = k) xs"
    using filter_key_le_one [OF assms(2), of k] by (rule mset_eq_short_lists)
qed

section \<open>Facts about double precision\<close>


lemmas double_eval =
  to_double_def quantum_def ilog2_def round_half_even_def compute_bitlen Let_def rounded_def
  dplus_def dminus_def dtimes_def ddivide_def

lemma to_double_1: "to_double 1 = Fin 1"
  by (simp add: double_eval)

lemma to_double_100: "to_double 100 = Fin 100"
  by (simp add: double_eval)

text \<open>
  The base of the cohort calculation in double precision: a finite base other than 0
  divided by itself is 1 without rounding, and 1 times 100 is 100 without rounding.
\<close>

lemma base_ratio_double:
  assumes "c \<noteq> 0"
  shows "dtimes (ddivide (Fin c) (Fin c)) (Fin 100) = Fin 100"
  using assms by (simp add: dtimes_def ddivide_def rounded_def to_double_1 to_double_100)













section \<open>The store: value and frame\<close>

lemma cohort_retention_store_value:
  assumes "a < length h"
  shows "fst (calculateCohortRetention_store h a) = calculateCohortRetention (h ! a)"
  using assms
  by (simp add: calculateCohortRetention_store_def calculateCohortRetention_def array_spread_def
      array_sort_def nth_append Let_def)

lemma cohort_retention_store_frame:
  assumes "b < length h"
  shows "snd (calculateCohortRetention_store h a) ! b = h ! b"
  using assms
  by (simp add: calculateCohortRetention_store_def array_spread_def
      array_sort_def nth_append Let_def)

section \<open>Net revenue retention\<close>

text \<open>
  C1. \<^verbatim>\<open>calculateNRR\<close> returns 0 when \<open>startMRR\<close> is 0, and otherwise
  \<open>((startMRR + expansionMRR - contractionMRR - churnedMRR) / startMRR) * 100\<close>, an absent
  \<open>expansionMRR\<close> or \<open>contractionMRR\<close> counting as 0. Two inputs that differ only in
  \<open>newMRR\<close> have the same result.
\<close>

theorem calculateNRR_formula:
  "calculateNRR input =
     (if startMRR input = Fin 0 then Fin 0
      else ((startMRR input + or_default (expansionMRR input) (Fin 0)
               - or_default (contractionMRR input) (Fin 0) - churnedMRR input)
             / startMRR input) * Fin 100)
   \<and> calculateNRR (input\<lparr>newMRR := n\<rparr>) = calculateNRR input"
  by (simp add: calculateNRR_def strict_eq_zero Let_def)

theorem calculateNRR_formula_witness:
  "calculateNRR \<lparr>startMRR = Fin 10000, newMRR = None, expansionMRR = Some (Fin 1000),
       contractionMRR = Some (Fin 200), churnedMRR = Fin 300\<rparr> = Fin 105
   \<and> calculateNRR \<lparr>startMRR = Fin 10000, newMRR = Some (Fin 4000),
       expansionMRR = Some (Fin 1000), contractionMRR = Some (Fin 200),
       churnedMRR = Fin 300\<rparr> = Fin 105
   \<and> calculateNRR \<lparr>startMRR = Fin 0, newMRR = None, expansionMRR = None,
       contractionMRR = None, churnedMRR = Fin 300\<rparr> = Fin 0"
  using calculateNRR_formula [of "\<lparr>startMRR = Fin 10000, newMRR = None,
            expansionMRR = Some (Fin 1000), contractionMRR = Some (Fin 200),
            churnedMRR = Fin 300\<rparr>" "Some (Fin 4000)"]
    calculateNRR_formula [of "\<lparr>startMRR = Fin 0, newMRR = None, expansionMRR = None,
            contractionMRR = None, churnedMRR = Fin 300\<rparr>" None]
  by (simp add: or_default_def minus_jsnum_def)

section \<open>Cohort retention\<close>

text \<open>
  C2, as the specification states it: every permutation of the input gives the same output.
  This fails when two cohorts share a month, since the stable sort keeps their input order
  and the first of them is the base: exchanging two cohorts of month 0 changes the result.
\<close>

theorem calculateCohortRetention_permutation_counterexample:
  "mset [\<lparr>month = 0, customers = Fin 50\<rparr>, \<lparr>month = 0, customers = Fin 100\<rparr>]
     = mset [\<lparr>month = 0, customers = Fin 100\<rparr>, \<lparr>month = 0, customers = Fin 50\<rparr>]
   \<and> calculateCohortRetention
         [\<lparr>month = 0, customers = Fin 100\<rparr>, \<lparr>month = 0, customers = Fin 50\<rparr>]
       = [Fin 100, Fin 50]
   \<and> calculateCohortRetention
         [\<lparr>month = 0, customers = Fin 50\<rparr>, \<lparr>month = 0, customers = Fin 100\<rparr>]
       = [Fin 100, Fin 200]
   \<and> calculateCohortRetention
         [\<lparr>month = 0, customers = Fin 50\<rparr>, \<lparr>month = 0, customers = Fin 100\<rparr>]
       \<noteq> calculateCohortRetention
         [\<lparr>month = 0, customers = Fin 100\<rparr>, \<lparr>month = 0, customers = Fin 50\<rparr>]"
  by (simp add: calculateCohortRetention_def strict_eq_def)

text \<open>
  C2, amended: a permutation of the input that keeps the relative order of the cohorts
  sharing a month gives the same output. When the months are pairwise distinct this is
  every permutation (\<open>cohort_retention_distinct_months\<close>).
\<close>

theorem calculateCohortRetention_permutation:
  assumes "mset ys = mset xs"
    and "\<forall>k. filter (\<lambda>c. month c = k) ys = filter (\<lambda>c. month c = k) xs"
  shows "calculateCohortRetention ys = calculateCohortRetention xs"
  using assms by (intro cohort_retention_cong) auto

theorem calculateCohortRetention_permutation_witness:
  "mset [\<lparr>month = 0, customers = Fin 100\<rparr>, \<lparr>month = 1, customers = Fin 90\<rparr>,
         \<lparr>month = 0, customers = Fin 50\<rparr>]
     = mset [\<lparr>month = 1, customers = Fin 90\<rparr>, \<lparr>month = 0, customers = Fin 100\<rparr>,
         \<lparr>month = 0, customers = Fin 50\<rparr>]
   \<and> (\<forall>k. filter (\<lambda>c. month c = k)
            [\<lparr>month = 0, customers = Fin 100\<rparr>, \<lparr>month = 1, customers = Fin 90\<rparr>,
             \<lparr>month = 0, customers = Fin 50\<rparr>]
          = filter (\<lambda>c. month c = k)
            [\<lparr>month = 1, customers = Fin 90\<rparr>, \<lparr>month = 0, customers = Fin 100\<rparr>,
             \<lparr>month = 0, customers = Fin 50\<rparr>])
   \<and> calculateCohortRetention
         [\<lparr>month = 0, customers = Fin 100\<rparr>, \<lparr>month = 1, customers = Fin 90\<rparr>,
          \<lparr>month = 0, customers = Fin 50\<rparr>]
       = calculateCohortRetention
         [\<lparr>month = 1, customers = Fin 90\<rparr>, \<lparr>month = 0, customers = Fin 100\<rparr>,
          \<lparr>month = 0, customers = Fin 50\<rparr>]"
proof -
  let ?ys = "[\<lparr>month = 0, customers = Fin 100\<rparr>, \<lparr>month = 1, customers = Fin 90\<rparr>,
              \<lparr>month = 0, customers = Fin 50\<rparr>]"
  let ?xs = "[\<lparr>month = 1, customers = Fin 90\<rparr>, \<lparr>month = 0, customers = Fin 100\<rparr>,
              \<lparr>month = 0, customers = Fin 50\<rparr>]"
  have p: "mset ?ys = mset ?xs" by simp
  have s: "\<forall>k. filter (\<lambda>c. month c = k) ?ys = filter (\<lambda>c. month c = k) ?xs" by simp
  from p s calculateCohortRetention_permutation [OF p s] show ?thesis by blast
qed

text \<open>
  C3. \<^verbatim>\<open>calculateCohortRetention\<close> returns the empty sequence for the empty input.
  Otherwise let \<open>s\<close> be the input sorted ascending by month by a stable sort, that is sorted
  by month, a permutation of the input, and with the cohorts of each month in their input
  order, and let the base be the customers of the first element of \<open>s\<close>. If the base is 0
  the result is as many zeros as the input has elements; if not, the result is
  \<open>(customers / base) * 100\<close> for every cohort of \<open>s\<close>, in the order of \<open>s\<close>.
\<close>

theorem calculateCohortRetention_spec:
  "calculateCohortRetention [] = []
   \<and> (cohorts \<noteq> []
        \<and> sorted (map month s) \<and> mset s = mset cohorts
        \<and> (\<forall>k. filter (\<lambda>c. month c = k) s = filter (\<lambda>c. month c = k) cohorts)
      \<longrightarrow> (customers (hd s) = Fin 0 \<longrightarrow>
              calculateCohortRetention cohorts = replicate (length cohorts) (Fin 0))
          \<and> (customers (hd s) \<noteq> Fin 0 \<longrightarrow>
              calculateCohortRetention cohorts =
                map (\<lambda>c. (customers c / customers (hd s)) * Fin 100) s))"
proof (intro conjI impI)
  show "calculateCohortRetention [] = []"
    by (simp add: calculateCohortRetention_def)
next
  assume a: "cohorts \<noteq> [] \<and> sorted (map month s) \<and> mset s = mset cohorts
        \<and> (\<forall>k. filter (\<lambda>c. month c = k) s = filter (\<lambda>c. month c = k) cohorts)"
  then have s: "sort_key month cohorts = s"
    by (intro stable_sort_unique) auto
  have len: "length s = length cohorts"
    using a by (auto dest: mset_eq_length)
  with a have "s \<noteq> []" by auto
  then have hd: "s ! 0 = hd s" by (simp add: hd_conv_nth)
  {
    assume "customers (hd s) = Fin 0"
    then show "calculateCohortRetention cohorts = replicate (length cohorts) (Fin 0)"
      using a s hd len
      by (simp add: calculateCohortRetention_def strict_eq_zero map_replicate_const)
  }
  {
    assume "customers (hd s) \<noteq> Fin 0"
    then show "calculateCohortRetention cohorts =
                map (\<lambda>c. (customers c / customers (hd s)) * Fin 100) s"
      using a s hd by (simp add: calculateCohortRetention_def strict_eq_zero)
  }
qed

theorem calculateCohortRetention_spec_witness:
  "calculateCohortRetention
      [\<lparr>month = 2, customers = Fin 85\<rparr>, \<lparr>month = 0, customers = Fin 100\<rparr>,
       \<lparr>month = 1, customers = Fin 90\<rparr>] = [Fin 100, Fin 90, Fin 85]
   \<and> calculateCohortRetention
      [\<lparr>month = 1, customers = Fin 7\<rparr>, \<lparr>month = 0, customers = Fin 0\<rparr>] = [Fin 0, Fin 0]"
proof -
  let ?c1 = "[\<lparr>month = 2, customers = Fin 85\<rparr>, \<lparr>month = 0, customers = Fin 100\<rparr>,
              \<lparr>month = 1, customers = Fin 90\<rparr>]"
  let ?s1 = "[\<lparr>month = 0, customers = Fin 100\<rparr>, \<lparr>month = 1, customers = Fin 90\<rparr>,
              \<lparr>month = 2, customers = Fin 85\<rparr>]"
  let ?c2 = "[\<lparr>month = 1, customers = Fin 7\<rparr>, \<lparr>month = 0, customers = Fin 0\<rparr>]"
  let ?s2 = "[\<lparr>month = 0, customers = Fin 0\<rparr>, \<lparr>month = 1, customers = Fin 7\<rparr>]"
  have h1: "?c1 \<noteq> [] \<and> sorted (map month ?s1) \<and> mset ?s1 = mset ?c1
        \<and> (\<forall>k. filter (\<lambda>c. month c = k) ?s1 = filter (\<lambda>c. month c = k) ?c1)"
    by simp
  have h2: "?c2 \<noteq> [] \<and> sorted (map month ?s2) \<and> mset ?s2 = mset ?c2
        \<and> (\<forall>k. filter (\<lambda>c. month c = k) ?s2 = filter (\<lambda>c. month c = k) ?c2)"
    by simp
  have b1: "customers (hd ?s1) \<noteq> Fin 0" by simp
  have b2: "customers (hd ?s2) = Fin 0" by simp
  from calculateCohortRetention_spec [of ?c1 ?s1] h1 b1
  have r1: "calculateCohortRetention ?c1 =
      map (\<lambda>c. (customers c / customers (hd ?s1)) * Fin 100) ?s1"
    by blast
  from calculateCohortRetention_spec [of ?c2 ?s2] h2 b2
  have r2: "calculateCohortRetention ?c2 = replicate (length ?c2) (Fin 0)"
    by blast
  from r1 r2 show ?thesis by (simp add: numeral_2_eq_2)
qed

text \<open>
  C10. The calculation on the store: for a non-empty input array whose earliest cohort,
  after the stable sort by month, has a finite number of customers other than 0, the output
  has the length of the input and its first element is 100, and every array of the store,
  the input array among them, is left as it was: the sort works on the copy.
\<close>

theorem calculateCohortRetention_store_base_100:
  assumes "a < length h" and "h ! a \<noteq> []"
    and "customers (sort_key month (h ! a) ! 0) = Fin c" and "c \<noteq> 0"
  shows "length (fst (calculateCohortRetention_store h a)) = length (h ! a)
         \<and> fst (calculateCohortRetention_store h a) ! 0 = Fin 100
         \<and> (\<forall>b < length h. snd (calculateCohortRetention_store h a) ! b = h ! b)"
proof -
  have "0 < length (sort_key month (h ! a))"
    using assms(2) by simp
  then show ?thesis
    using assms
    by (simp add: cohort_retention_store_value cohort_retention_store_frame
        calculateCohortRetention_def strict_eq_zero Let_def del: length_greater_0_conv)
qed

theorem calculateCohortRetention_store_base_100_witness:
  "length (fst (calculateCohortRetention_store
      [[\<lparr>month = 2, customers = Fin 85\<rparr>, \<lparr>month = 0, customers = Fin 40\<rparr>]] 0)) = 2
   \<and> fst (calculateCohortRetention_store
      [[\<lparr>month = 2, customers = Fin 85\<rparr>, \<lparr>month = 0, customers = Fin 40\<rparr>]] 0) ! 0
       = Fin 100
   \<and> snd (calculateCohortRetention_store
      [[\<lparr>month = 2, customers = Fin 85\<rparr>, \<lparr>month = 0, customers = Fin 40\<rparr>]] 0) ! 0
       = [\<lparr>month = 2, customers = Fin 85\<rparr>, \<lparr>month = 0, customers = Fin 40\<rparr>]"
proof -
  let ?h = "[[\<lparr>month = 2, customers = Fin 85\<rparr>, \<lparr>month = 0, customers = Fin 40\<rparr>]]"
  have 1: "0 < length ?h" by simp
  have 2: "?h ! 0 \<noteq> []" by simp
  have 3: "customers (sort_key month (?h ! 0) ! 0) = Fin 40" by simp
  have 4: "(40::real) \<noteq> 0" by simp
  from calculateCohortRetention_store_base_100 [OF 1 2 3 4] show ?thesis by simp
qed

section \<open>Division by zero\<close>

text \<open>
  C4. The two churn rates are guarded: with a zero denominator
  \<^verbatim>\<open>calculateCustomerChurnRate\<close> and \<^verbatim>\<open>calculateRevenueChurnRate\<close> return 0.
  \<^verbatim>\<open>calculateARPU\<close> is not: with zero users it returns Infinity for positive sales and
  NaN for zero sales. Every operation of the model is a total function into numbers or
  lists of numbers: none has an error among its results.
\<close>

theorem zero_denominator_policy:
  "(startCustomers ci = Fin 0 \<longrightarrow> calculateCustomerChurnRate ci = Fin 0)
   \<and> (rc_startMRR ri = Fin 0 \<longrightarrow> calculateRevenueChurnRate ri = Fin 0)
   \<and> (0 < s \<longrightarrow> calculateARPU (Fin s) (Fin 0) = PInf)
   \<and> calculateARPU PInf (Fin 0) = PInf
   \<and> calculateARPU (Fin 0) (Fin 0) = NaN"
  by (simp add: calculateCustomerChurnRate_def calculateRevenueChurnRate_def calculateARPU_def
      strict_eq_zero)

theorem zero_denominator_policy_witness:
  "calculateCustomerChurnRate \<lparr>startCustomers = Fin 0, churnedCustomers = Fin 5\<rparr> = Fin 0
   \<and> calculateRevenueChurnRate
        \<lparr>rc_startMRR = Fin 0, rc_churnedMRR = Fin 500, rc_contractionMRR = Some (Fin 200)\<rparr>
       = Fin 0
   \<and> calculateARPU (Fin 100) (Fin 0) = PInf
   \<and> calculateARPU (Fin 0) (Fin 0) = NaN"
  using zero_denominator_policy [of "\<lparr>startCustomers = Fin 0, churnedCustomers = Fin 5\<rparr>"
      "\<lparr>rc_startMRR = Fin 0, rc_churnedMRR = Fin 500, rc_contractionMRR = Some (Fin 200)\<rparr>"
      100]
  by simp

section \<open>Recurring revenue\<close>

lemma mrr_step_contribution: "mrr_step tot sub = tot + spec_contribution sub"
  by (simp add: mrr_step_def spec_contribution_def MONTHS_PER_YEAR_def WEEKS_PER_YEAR_def
      DAYS_PER_YEAR_def Fin_0_eq)

lemma foldl_mrr_step: "foldl mrr_step a subs = a + sum_list (map spec_contribution subs)"
  by (induction subs arbitrary: a) (simp_all add: mrr_step_contribution add.assoc)

text \<open>
  C5. \<^verbatim>\<open>calculateMRR\<close> is the sum over the subscriptions of the monthly equivalent of
  each: \<open>amount\<close> for month, \<open>amount / 12\<close> for year, \<open>amount * 52 / 12\<close> for week,
  \<open>amount * 365 / 12\<close> for day, and 0 for any other interval. The sum is the one taken
  from 0 in the order of the list, and in exact arithmetic the sum in any order.
\<close>

theorem calculateMRR_sum:
  "calculateMRR subs = foldl (\<lambda>s r. s + r) (Fin 0) (map spec_contribution subs)
   \<and> calculateMRR subs = sum_list (map spec_contribution subs)"
  by (simp add: calculateMRR_def foldl_mrr_step foldl_plus_sum_list Fin_0_eq)

theorem calculateMRR_sum_witness:
  "calculateMRR [\<lparr>amount = Fin 1000, interval = ''month''\<rparr>,
      \<lparr>amount = Fin 12000, interval = ''year''\<rparr>, \<lparr>amount = Fin 52, interval = ''week''\<rparr>,
      \<lparr>amount = Fin 12, interval = ''day''\<rparr>, \<lparr>amount = Fin 900, interval = ''quarter''\<rparr>]
     = Fin (7771 / 3)"
  using calculateMRR_sum [of "[\<lparr>amount = Fin 1000, interval = ''month''\<rparr>,
      \<lparr>amount = Fin 12000, interval = ''year''\<rparr>, \<lparr>amount = Fin 52, interval = ''week''\<rparr>,
      \<lparr>amount = Fin 12, interval = ''day''\<rparr>, \<lparr>amount = Fin 900, interval = ''quarter''\<rparr>]"]
  by (simp add: spec_contribution_def zero_jsnum_def)

text \<open>C7. \<^verbatim>\<open>calculateARR\<close> is \<^verbatim>\<open>calculateMRR\<close> of the same subscriptions times 12.\<close>

theorem calculateARR_eq: "calculateARR subs = calculateMRR subs * Fin 12"
  by (simp add: calculateARR_def MONTHS_PER_YEAR_def)

section \<open>Average duration\<close>





text \<open>
  The getter of the class does not calculate at all for the argument 0: on a new instance
  it returns the stored duration 0.
\<close>

lemma getAverageDurationByChurnRate_zero:
  "fst (getAverageDurationByChurnRate new_LTVCalculator (Some (Fin 0)) (Some Percentage))
     = Fin 0"
  by (simp add: getAverageDurationByChurnRate_def new_LTVCalculator_def truthy_def)

section \<open>Historical lifetime value\<close>

text \<open>
  C8. \<^verbatim>\<open>calculateHistoricalLTV\<close> returns 0 for the empty sequence, and for a non-empty
  one the sum of the revenues, taken from 0 in the order of the list, divided by their
  number.
\<close>

theorem calculateHistoricalLTV_mean:
  "calculateHistoricalLTV [] = Fin 0
   \<and> (revenues \<noteq> [] \<longrightarrow>
        calculateHistoricalLTV revenues
          = foldl (\<lambda>s r. s + r) (Fin 0) revenues / Fin (real (length revenues))
        \<and> calculateHistoricalLTV revenues
          = sum_list revenues / Fin (real (length revenues)))"
  by (simp add: calculateHistoricalLTV_def foldl_plus_sum_list Fin_0_eq)

theorem calculateHistoricalLTV_mean_witness:
  "[Fin 1000, Fin 1200, Fin 1500, Fin 800, Fin 2000] \<noteq> []
   \<and> calculateHistoricalLTV [Fin 1000, Fin 1200, Fin 1500, Fin 800, Fin 2000] = Fin 1300"
  using calculateHistoricalLTV_mean [of "[Fin 1000, Fin 1200, Fin 1500, Fin 800, Fin 2000]"]
  by (simp add: zero_jsnum_def)

text \<open>On finite revenues the result is the finite number that is their mean.\<close>

lemma calculateHistoricalLTV_finite:
  assumes "xs \<noteq> []"
  shows "calculateHistoricalLTV (map Fin xs) = Fin (sum_list xs / real (length xs))"
  using assms
  by (simp add: calculateHistoricalLTV_def foldl_plus_sum_list Fin_0_eq sum_list_Fin)

section \<open>Gross revenue retention and revenue churn\<close>





end
